theory Spec2Isabelle
  imports Main
begin

section \<open>Shared helpers: Python string formatting\<close>

text \<open>
  \<^verbatim>\<open>str(n)\<close> for a Python integer, as the f-strings of the tools use it: decimal
  digits, with a leading minus sign for a negative number.
\<close>

definition digit_char :: "nat \<Rightarrow> char" where
  "digit_char n = ''0123456789'' ! n"

function str_nat :: "nat \<Rightarrow> string" where
  "str_nat n = (if n < 10 then [digit_char n] else str_nat (n div 10) @ [digit_char (n mod 10)])"
  by pat_completeness auto
termination
  by (relation "measure (\<lambda>n. n)") auto

declare str_nat.simps [simp del]

definition str_int :: "int \<Rightarrow> string" where
  "str_int i = (if i < 0 then CHR ''-'' # str_nat (nat (- i)) else str_nat (nat i))"

text \<open>\<^verbatim>\<open>', '.join(changes)\<close>\<close>

fun join_comma :: "string list \<Rightarrow> string" where
  "join_comma [] = []"
| "join_comma [x] = x"
| "join_comma (x # y # ys) = x @ '', '' @ join_comma (y # ys)"

section \<open>The task store: \<^verbatim>\<open>agent_backend/toolsets/todo_tools.py\<close>\<close>

text \<open>\<^verbatim>\<open>class TodoItem(BaseModel)\<close>: the field \<^verbatim>\<open>id\<close> is \<open>id_t\<close> here.\<close>

record TodoItem =
  id_t :: string
  description_t :: string
  is_done :: bool
  priority :: int
  estimated_duration_minutes :: "int option"
  category :: "string option"
  project_or_path :: "string option"

text \<open>
  The module keeps its tasks in the module-level list \<^verbatim>\<open>_todos\<close>, and \<^verbatim>\<open>main.py\<close>
  binds a name of its own to that list with
  \<^verbatim>\<open>from toolsets.todo_tools import _todos\<close>. Two names, list objects that are
  mutated (\<^verbatim>\<open>append\<close>) or replaced (\<^verbatim>\<open>_todos = [...]\<close>), and items that are
  mutated through whichever list holds them: the state is an explicit store.

  \<^item> \<open>objects\<close>: the \<^verbatim>\<open>TodoItem\<close> objects ever created; a reference is an index;
  \<^item> \<open>list_objects\<close>: the list objects ever created, each a list of references;
  \<^item> \<open>todos\<close>: the list object the global \<^verbatim>\<open>todo_tools._todos\<close> is bound to;
  \<^item> \<open>main_todos\<close>: the list object the name \<^verbatim>\<open>_todos\<close> of \<^verbatim>\<open>main.py\<close> is bound
    to. The import binds it once; nothing in \<^verbatim>\<open>main.py\<close> assigns to it again.
\<close>

record todo_module =
  objects :: "TodoItem list"
  list_objects :: "nat list list"
  todos :: nat
  main_todos :: nat

text \<open>
  After both modules are loaded: \<^verbatim>\<open>_todos = []\<close> has made one empty list, and both
  names are bound to it.
\<close>

definition initial_module :: todo_module where
  "initial_module = \<lparr>objects = [], list_objects = [[]], todos = 0, main_todos = 0\<rparr>"

text \<open>
  \<^verbatim>\<open>add_task_to_list\<close>. The first argument is the string that
  \<^verbatim>\<open>str(uuid.uuid4())\<close> returned in this call. The new object is appended to the
  list the global is bound to, in place.
\<close>

definition add_task_to_list ::
  "string \<Rightarrow> string \<Rightarrow> int \<Rightarrow> int option \<Rightarrow> string option \<Rightarrow> string option \<Rightarrow>
   todo_module \<Rightarrow> string \<times> todo_module" where
  "add_task_to_list task_id description priority' estimated_duration_minutes' category'
      project_or_path' s =
     (let todo_item = \<lparr>id_t = task_id, description_t = description, is_done = False,
            priority = priority', estimated_duration_minutes = estimated_duration_minutes',
            category = category', project_or_path = project_or_path'\<rparr>;
          r = length (objects s)
      in (''Task added with ID: '' @ task_id,
          s\<lparr>objects := objects s @ [todo_item],
            list_objects := (list_objects s)[todos s := (list_objects s ! todos s) @ [r]]\<rparr>))"

text \<open>\<^verbatim>\<open>list_current_tasks\<close> returns the list the global is bound to.\<close>

definition list_current_tasks :: "todo_module \<Rightarrow> TodoItem list" where
  "list_current_tasks s = map (\<lambda>r. objects s ! r) (list_objects s ! todos s)"

text \<open>The list that the name \<^verbatim>\<open>_todos\<close> of \<^verbatim>\<open>main.py\<close> denotes.\<close>

definition main_tasks :: "todo_module \<Rightarrow> TodoItem list" where
  "main_tasks s = map (\<lambda>r. objects s ! r) (list_objects s ! main_todos s)"

text \<open>
  \<^verbatim>\<open>TaskListResponse(tasks=...)\<close> of \<^verbatim>\<open>main.py\<close>: the field is a list of
  \<^verbatim>\<open>TaskItem\<close>, a model class of \<^verbatim>\<open>main.py\<close>, and pydantic (version 2, which the
  \<^verbatim>\<open>agents\<close> library needs) validates every element: it takes a \<^verbatim>\<open>TaskItem\<close> or a
  dict. The elements of \<^verbatim>\<open>_todos\<close> are \<^verbatim>\<open>TodoItem\<close> objects, objects of another model
  class, so the constructor raises \<^verbatim>\<open>ValidationError\<close> (\<open>None\<close>) for every list
  that is not empty.
\<close>

definition TaskListResponse :: "TodoItem list \<Rightarrow> TodoItem list option" where
  "TaskListResponse tasks = (case tasks of [] \<Rightarrow> Some [] | _ \<Rightarrow> None)"

text \<open>
  \<^verbatim>\<open>get_todos\<close> of \<^verbatim>\<open>main.py\<close> (the endpoint \<^verbatim>\<open>/todos\<close>) returns
  \<^verbatim>\<open>TaskListResponse(tasks=_todos)\<close>, with the name \<^verbatim>\<open>_todos\<close> of \<^verbatim>\<open>main.py\<close>,
  inside \<^verbatim>\<open>try\<close>; \<^verbatim>\<open>except Exception\<close> turns any exception into
  \<^verbatim>\<open>HTTPException(status_code=500, ...)\<close>. \<open>Inl\<close> is the raised exception with its
  status code, \<open>Inr\<close> the tasks of the response.
\<close>

datatype http_exception = HTTPException nat

definition get_todos :: "todo_module \<Rightarrow> http_exception + TodoItem list" where
  "get_todos s =
     (case TaskListResponse (main_tasks s) of
        Some tasks \<Rightarrow> Inr tasks
      | None \<Rightarrow> Inl (HTTPException 500))"

text \<open>
  \<^verbatim>\<open>remove_task_from_list\<close>: the comprehension builds a new list object, and
  \<^verbatim>\<open>global _todos\<close> rebinds the global of \<^verbatim>\<open>todo_tools\<close> to it, whether or not
  anything was removed.
\<close>

definition remove_task_from_list :: "string \<Rightarrow> todo_module \<Rightarrow> string \<times> todo_module" where
  "remove_task_from_list task_id s =
     (let before_count = length (list_objects s ! todos s);
          kept = filter (\<lambda>r. id_t (objects s ! r) \<noteq> task_id) (list_objects s ! todos s);
          s' = s\<lparr>list_objects := list_objects s @ [kept], todos := length (list_objects s)\<rparr>;
          after_count = length (list_objects s' ! todos s')
      in if before_count = after_count
         then (''No task found with ID: '' @ task_id, s')
         else (''Task with ID: '' @ task_id @ '' has been removed'', s'))"

text \<open>
  The loop \<^verbatim>\<open>for todo in _todos: if todo.id == task_id: ... return\<close> of the four
  update tools: the first object of the list whose id is \<^verbatim>\<open>task_id\<close>.
\<close>

fun find_todo :: "TodoItem list \<Rightarrow> string \<Rightarrow> nat list \<Rightarrow> nat option" where
  "find_todo objs task_id [] = None"
| "find_todo objs task_id (r # rs) =
     (if id_t (objs ! r) = task_id then Some r else find_todo objs task_id rs)"

definition update_task_status :: "string \<Rightarrow> bool \<Rightarrow> todo_module \<Rightarrow> string \<times> todo_module" where
  "update_task_status task_id is_done' s =
     (case find_todo (objects s) task_id (list_objects s ! todos s) of
        Some r \<Rightarrow>
          (''Task with ID: '' @ task_id @ '' has been '' @
             (if is_done' then ''completed'' else ''marked as not complete''),
           s\<lparr>objects := (objects s)[r := (objects s ! r)\<lparr>is_done := is_done'\<rparr>]\<rparr>)
      | None \<Rightarrow> (''No task found with ID: '' @ task_id, s))"

definition update_task_priority :: "string \<Rightarrow> int \<Rightarrow> todo_module \<Rightarrow> string \<times> todo_module" where
  "update_task_priority task_id priority' s =
     (if priority' < 1 \<or> priority' > 5 then (''Priority must be between 1 and 5'', s)
      else case find_todo (objects s) task_id (list_objects s ! todos s) of
        Some r \<Rightarrow>
          (''Task with ID: '' @ task_id @ '' has been updated to priority '' @ str_int priority',
           s\<lparr>objects := (objects s)[r := (objects s ! r)\<lparr>priority := priority'\<rparr>]\<rparr>)
      | None \<Rightarrow> (''No task found with ID: '' @ task_id, s))"

definition update_task_estimated_duration ::
  "string \<Rightarrow> int \<Rightarrow> todo_module \<Rightarrow> string \<times> todo_module" where
  "update_task_estimated_duration task_id estimated_duration_minutes' s =
     (if estimated_duration_minutes' \<le> 0 then (''Duration must be greater than 0 minutes'', s)
      else case find_todo (objects s) task_id (list_objects s ! todos s) of
        Some r \<Rightarrow>
          (''Task with ID: '' @ task_id @ '' has been updated with estimated duration of '' @
             str_int estimated_duration_minutes' @ '' minutes'',
           s\<lparr>objects := (objects s)[r := (objects s ! r)
                \<lparr>estimated_duration_minutes := Some estimated_duration_minutes'\<rparr>]\<rparr>)
      | None \<Rightarrow> (''No task found with ID: '' @ task_id, s))"

text \<open>
  \<^verbatim>\<open>update_task_metadata\<close>: each field is assigned only when its argument is not
  \<^verbatim>\<open>None\<close>; with both \<^verbatim>\<open>None\<close> the found task is left as it is.
\<close>

definition update_task_metadata ::
  "string \<Rightarrow> string option \<Rightarrow> string option \<Rightarrow> todo_module \<Rightarrow> string \<times> todo_module" where
  "update_task_metadata task_id category' project_or_path' s =
     (case find_todo (objects s) task_id (list_objects s ! todos s) of
        Some r \<Rightarrow>
          (let todo0 = objects s ! r;
               (todo1, changes1) =
                 (case category' of
                    Some c \<Rightarrow> (todo0\<lparr>category := Some c\<rparr>, [''category='' @ [CHR 0x27] @ c @ [CHR 0x27]])
                  | None \<Rightarrow> (todo0, []));
               (todo2, changes2) =
                 (case project_or_path' of
                    Some p \<Rightarrow> (todo1\<lparr>project_or_path := Some p\<rparr>,
                               changes1 @ [''project_or_path='' @ [CHR 0x27] @ p @ [CHR 0x27]])
                  | None \<Rightarrow> (todo1, changes1));
               s' = s\<lparr>objects := (objects s)[r := todo2]\<rparr>
           in if changes2 = [] then (''No changes specified'', s')
              else (''Task with ID: '' @ task_id @ '' has been updated with '' @
                      join_comma changes2, s'))
      | None \<Rightarrow> (''No task found with ID: '' @ task_id, s))"

text \<open>
  The tools as the agent runtime calls them, one after the other on the shared module
  state; what a call returns to the model is dropped here.
\<close>

datatype todo_call =
    AddTask string string int "int option" "string option" "string option"
  | ListTasks
  | RemoveTask string
  | SetStatus string bool
  | SetPriority string int
  | SetDuration string int
  | SetMetadata string "string option" "string option"

fun call_todo_tool :: "todo_call \<Rightarrow> todo_module \<Rightarrow> todo_module" where
  "call_todo_tool (AddTask u d p e c pp) s = snd (add_task_to_list u d p e c pp s)"
| "call_todo_tool ListTasks s = s"
| "call_todo_tool (RemoveTask i) s = snd (remove_task_from_list i s)"
| "call_todo_tool (SetStatus i b) s = snd (update_task_status i b s)"
| "call_todo_tool (SetPriority i p) s = snd (update_task_priority i p s)"
| "call_todo_tool (SetDuration i m) s = snd (update_task_estimated_duration i m s)"
| "call_todo_tool (SetMetadata i c pp) s = snd (update_task_metadata i c pp s)"

fun run_todo_tools :: "todo_call list \<Rightarrow> todo_module \<Rightarrow> todo_module" where
  "run_todo_tools [] s = s"
| "run_todo_tools (c # cs) s = run_todo_tools cs (call_todo_tool c s)"

text \<open>The identifiers that \<^verbatim>\<open>uuid.uuid4()\<close> returned in a sequence of calls.\<close>

fun uuids :: "todo_call list \<Rightarrow> string list" where
  "uuids [] = []"
| "uuids (AddTask u d p e c pp # cs) = u # uuids cs"
| "uuids (c # cs) = uuids cs"

text \<open>
  The shape every state has that the tools produce from the initial one when
  \<^verbatim>\<open>uuid4\<close> never returns the same identifier twice: both names are bound to a list
  object, the current list refers to objects that exist, and no two of its tasks have
  the same identifier.
\<close>

definition store_ok :: "todo_module \<Rightarrow> bool" where
  "store_ok s \<longleftrightarrow>
     todos s < length (list_objects s) \<and> main_todos s < length (list_objects s) \<and>
     (\<forall>r\<in>set (list_objects s ! todos s). r < length (objects s)) \<and>
     distinct (map id_t (list_current_tasks s))"

text \<open>What \<^verbatim>\<open>update_task_metadata\<close> assigns to the task it finds.\<close>

definition set_metadata :: "string option \<Rightarrow> string option \<Rightarrow> TodoItem \<Rightarrow> TodoItem" where
  "set_metadata c p t =
     (let t1 = (case c of Some x \<Rightarrow> t\<lparr>category := Some x\<rparr> | None \<Rightarrow> t)
      in case p of Some y \<Rightarrow> t1\<lparr>project_or_path := Some y\<rparr> | None \<Rightarrow> t1)"

section \<open>Timestamps: what the calendar tools use of \<^verbatim>\<open>datetime\<close>\<close>

text \<open>
  A \<^verbatim>\<open>datetime\<close> is the number of microseconds of its wall-clock reading since
  0001-01-01T00:00:00, a \<^verbatim>\<open>timedelta\<close> a number of microseconds. Timestamps are
  the offset-naive ones of the documented input format. The type holds the instants
  from 0001-01-01T00:00:00 to 9999-12-31T23:59:59.999999, and an addition that
  leaves this range raises \<^verbatim>\<open>OverflowError\<close>.
\<close>

type_synonym datetime = int
type_synonym timedelta = int

datatype py_exception = OverflowError

definition datetime_max :: datetime where
  "datetime_max = 315537897599999999"

definition datetime_ok :: "datetime \<Rightarrow> bool" where
  "datetime_ok t \<longleftrightarrow> 0 \<le> t \<and> t \<le> datetime_max"

text \<open>\<^verbatim>\<open>timedelta(minutes=m)\<close> for an integer \<open>m\<close>.\<close>

definition timedelta_minutes :: "int \<Rightarrow> timedelta" where
  "timedelta_minutes m = m * 60000000"

text \<open>\<^verbatim>\<open>t + d\<close>; \<open>None\<close> is the \<^verbatim>\<open>OverflowError\<close>.\<close>

definition add_timedelta :: "datetime \<Rightarrow> timedelta \<Rightarrow> datetime option" where
  "add_timedelta t d = (if datetime_ok (t + d) then Some (t + d) else None)"

text \<open>\<^verbatim>\<open>t.date()\<close>, as the number of the day.\<close>

definition date_of :: "datetime \<Rightarrow> int" where
  "date_of t = t div 86400000000"

text \<open>
  \<^verbatim>\<open>datetime.fromisoformat\<close> is a parameter of the calendar tools below: a function
  from strings to timestamps, \<open>None\<close> where the library raises \<^verbatim>\<open>ValueError\<close>.
  \<open>iso_parse\<close> is that function on the two forms the tools document,
  \<^verbatim>\<open>YYYY-MM-DD\<close> and \<^verbatim>\<open>YYYY-MM-DDTHH:MM:SS\<close> (the library takes any character
  in the place of \<^verbatim>\<open>T\<close>), with the library's calendar arithmetic (\<^verbatim>\<open>_is_leap\<close>,
  \<^verbatim>\<open>_days_before_year\<close>, \<^verbatim>\<open>_days_in_month\<close>, \<^verbatim>\<open>_days_before_month\<close>,
  \<^verbatim>\<open>_ymd2ord\<close>). It is \<open>None\<close> on every other string, also on the further forms
  that some versions of the library accept (\<^verbatim>\<open>20240101\<close>, fractions of a second,
  offsets), so it is used for concrete inputs only: strings of the two forms, and
  strings that no version accepts.
\<close>

definition digit_of :: "char \<Rightarrow> int option" where
  "digit_of c = map_of (zip ''0123456789'' [0, 1, 2, 3, 4, 5, 6, 7, 8, 9]) c"

fun number_of :: "int \<Rightarrow> string \<Rightarrow> int option" where
  "number_of acc [] = Some acc"
| "number_of acc (c # cs) =
     (case digit_of c of None \<Rightarrow> None | Some d \<Rightarrow> number_of (acc * 10 + d) cs)"

definition is_leap :: "int \<Rightarrow> bool" where
  "is_leap y \<longleftrightarrow> y mod 4 = 0 \<and> (y mod 100 \<noteq> 0 \<or> y mod 400 = 0)"

definition days_before_year :: "int \<Rightarrow> int" where
  "days_before_year year = (let y = year - 1 in y * 365 + y div 4 - y div 100 + y div 400)"

definition days_in_month :: "int \<Rightarrow> int \<Rightarrow> int" where
  "days_in_month year month =
     (if month = 2 \<and> is_leap year then 29
      else [31, 28, 31, 30, 31, 30, 31, 31, 30, 31, 30, 31] ! nat (month - 1))"

definition days_before_month :: "int \<Rightarrow> int \<Rightarrow> int" where
  "days_before_month year month =
     [0, 31, 59, 90, 120, 151, 181, 212, 243, 273, 304, 334] ! nat (month - 1) +
     (if month > 2 \<and> is_leap year then 1 else 0)"

definition ymd2ord :: "int \<Rightarrow> int \<Rightarrow> int \<Rightarrow> int" where
  "ymd2ord year month day = days_before_year year + days_before_month year month + day"

definition parse_date :: "string \<Rightarrow> int option" where
  "parse_date s =
     (if length s = 10 \<and> s ! 4 = CHR ''-'' \<and> s ! 7 = CHR ''-'' then
        (case (number_of 0 (take 4 s), number_of 0 (take 2 (drop 5 s)),
               number_of 0 (take 2 (drop 8 s))) of
           (Some year, Some month, Some day) \<Rightarrow>
             (if 1 \<le> year \<and> 1 \<le> month \<and> month \<le> 12 \<and>
                 1 \<le> day \<and> day \<le> days_in_month year month
              then Some (ymd2ord year month day) else None)
         | _ \<Rightarrow> None)
      else None)"

definition parse_time :: "string \<Rightarrow> int option" where
  "parse_time s =
     (if length s = 8 \<and> s ! 2 = CHR '':'' \<and> s ! 5 = CHR '':'' then
        (case (number_of 0 (take 2 s), number_of 0 (take 2 (drop 3 s)),
               number_of 0 (take 2 (drop 6 s))) of
           (Some hour, Some minute, Some second) \<Rightarrow>
             (if hour < 24 \<and> minute < 60 \<and> second < 60
              then Some (hour * 3600 + minute * 60 + second) else None)
         | _ \<Rightarrow> None)
      else None)"

definition iso_parse :: "string \<Rightarrow> datetime option" where
  "iso_parse s =
     (if length s = 10 then
        (case parse_date s of None \<Rightarrow> None
         | Some ord \<Rightarrow> Some ((ord - 1) * 86400000000))
      else if length s = 19 then
        (case (parse_date (take 10 s), parse_time (drop 11 s)) of
           (Some ord, Some secs) \<Rightarrow> Some ((ord - 1) * 86400000000 + secs * 1000000)
         | _ \<Rightarrow> None)
      else None)"

section \<open>The calendar store: \<^verbatim>\<open>archive/agent_backend/toolsets/calendar_tools.py\<close>\<close>

text \<open>
  \<^verbatim>\<open>class CalendarEvent(BaseModel)\<close>: the fields \<^verbatim>\<open>id\<close> and \<^verbatim>\<open>description\<close>
  are \<open>id_e\<close> and \<open>description_e\<close> here.
\<close>

record CalendarEvent =
  id_e :: string
  title :: string
  start_time :: datetime
  end_time :: datetime
  description_e :: "string option"
  location :: "string option"

text \<open>
  The module-level list \<^verbatim>\<open>_calendar_events\<close> is the state; the claims about it look
  at it through the tools of this one module, so it is passed and returned as a list
  of events. A tool returns its value or raises: \<open>Inl\<close> is the exception that leaves
  the function, \<open>Inr\<close> the returned value, and the state is returned in both cases,
  as the assignments made before a \<^verbatim>\<open>raise\<close> stay.
\<close>

type_synonym 'a raised_or = "py_exception + 'a"

text \<open>
  \<^verbatim>\<open>create_calendar_event\<close>. \<open>event_id\<close> is the string that
  \<^verbatim>\<open>str(uuid.uuid4())\<close> returned. The \<^verbatim>\<open>except ValueError\<close> catches the parse
  failure; \<^verbatim>\<open>OverflowError\<close> is not a \<^verbatim>\<open>ValueError\<close> and leaves the function.
\<close>

definition create_calendar_event ::
  "(string \<Rightarrow> datetime option) \<Rightarrow> string \<Rightarrow> string \<Rightarrow> string \<Rightarrow> int \<Rightarrow> string option \<Rightarrow>
   string option \<Rightarrow> CalendarEvent list \<Rightarrow> string raised_or \<times> CalendarEvent list" where
  "create_calendar_event fromisoformat event_id title' start_time' duration_minutes
      description' location' calendar_events =
     (case fromisoformat start_time' of
        None \<Rightarrow>
          (Inr ''Error: Invalid datetime format. Please use ISO format (YYYY-MM-DDTHH:MM:SS)'',
           calendar_events)
      | Some start_datetime \<Rightarrow>
          (case add_timedelta start_datetime (timedelta_minutes duration_minutes) of
             None \<Rightarrow> (Inl OverflowError, calendar_events)
           | Some end_datetime \<Rightarrow>
               (let event = \<lparr>id_e = event_id, title = title', start_time = start_datetime,
                      end_time = end_datetime, description_e = description',
                      location = location'\<rparr>
                in (Inr (''Calendar event created with ID: '' @ event_id),
                    calendar_events @ [event]))))"

text \<open>
  \<^verbatim>\<open>list_calendar_events\<close>: the loop that collects the events of the day, then the
  tool.
\<close>

fun collect_events :: "int \<Rightarrow> CalendarEvent list \<Rightarrow> CalendarEvent list \<Rightarrow> CalendarEvent list" where
  "collect_events filter_day [] filtered_events = filtered_events"
| "collect_events filter_day (event # rest) filtered_events =
     (if date_of (start_time event) = filter_day
      then collect_events filter_day rest (filtered_events @ [event])
      else collect_events filter_day rest filtered_events)"

definition list_calendar_events ::
  "(string \<Rightarrow> datetime option) \<Rightarrow> string option \<Rightarrow> CalendarEvent list \<Rightarrow> CalendarEvent list" where
  "list_calendar_events fromisoformat date calendar_events =
     (case date of
        None \<Rightarrow> calendar_events
      | Some d \<Rightarrow>
          (case fromisoformat d of
             Some filter_date \<Rightarrow> collect_events (date_of filter_date) calendar_events []
           | None \<Rightarrow> calendar_events))"


text \<open>
  \<^verbatim>\<open>update_calendar_event_time\<close>, the body of the loop for the event whose id
  matches, in its three parts. A part either leaves the function (\<open>Inl\<close>: what is
  returned or raised, and the event as the assignments so far have left it) or goes
  on (\<open>Inr\<close>: the event and the list \<^verbatim>\<open>changes\<close>).

  The source computes the old duration as the float
  \<^verbatim>\<open>(event.end_time - event.start_time).total_seconds() / 60\<close> and turns it back with
  \<^verbatim>\<open>timedelta(minutes=duration)\<close>. Float arithmetic is the library's, so this round
  trip is a parameter of the tool, like the parser: \<open>minutes_round_trip d\<close> is the
  \<^verbatim>\<open>timedelta\<close> that \<^verbatim>\<open>timedelta(minutes=d.total_seconds() / 60)\<close> gives for the
  \<^verbatim>\<open>timedelta\<close> \<open>d\<close>. It can differ from \<open>d\<close> by microseconds when \<open>d\<close> is large
  and not a whole number of minutes.
\<close>

type_synonym update_step =
  "(string raised_or \<times> CalendarEvent) + (CalendarEvent \<times> string list)"

definition shift_start ::
  "(string \<Rightarrow> datetime option) \<Rightarrow> (timedelta \<Rightarrow> timedelta) \<Rightarrow> string option \<Rightarrow>
   CalendarEvent \<Rightarrow> update_step" where
  "shift_start fromisoformat minutes_round_trip start_time' event =
     (case start_time' of
        None \<Rightarrow> Inr (event, [])
      | Some st \<Rightarrow>
          (case fromisoformat st of
             None \<Rightarrow> Inl (Inr ''Error: Invalid datetime format for start_time'', event)
           | Some new_start \<Rightarrow>
               (let duration = minutes_round_trip (end_time event - start_time event);
                    event1 = event\<lparr>start_time := new_start\<rparr>
                in case add_timedelta new_start duration of
                     None \<Rightarrow> Inl (Inl OverflowError, event1)
                   | Some new_end \<Rightarrow> Inr (event1\<lparr>end_time := new_end\<rparr>, [''start time'']))))"

definition override_duration ::
  "int option \<Rightarrow> CalendarEvent \<Rightarrow> string list \<Rightarrow> update_step" where
  "override_duration duration_minutes event changes =
     (case duration_minutes of
        None \<Rightarrow> Inr (event, changes)
      | Some d \<Rightarrow>
          if d \<le> 0 then Inl (Inr ''Error: Duration must be greater than 0 minutes'', event)
          else (case add_timedelta (start_time event) (timedelta_minutes d) of
                  None \<Rightarrow> Inl (Inl OverflowError, event)
                | Some new_end \<Rightarrow> Inr (event\<lparr>end_time := new_end\<rparr>, changes @ [''duration''])))"

definition update_event ::
  "(string \<Rightarrow> datetime option) \<Rightarrow> (timedelta \<Rightarrow> timedelta) \<Rightarrow> string \<Rightarrow> string option \<Rightarrow>
   int option \<Rightarrow> CalendarEvent \<Rightarrow> string raised_or \<times> CalendarEvent" where
  "update_event fromisoformat minutes_round_trip event_id start_time' duration_minutes event =
     (case shift_start fromisoformat minutes_round_trip start_time' event of
        Inl left \<Rightarrow> left
      | Inr (event2, changes) \<Rightarrow>
          (case override_duration duration_minutes event2 changes of
             Inl left \<Rightarrow> left
           | Inr (event3, changes') \<Rightarrow>
               if changes' = [] then (Inr ''No changes specified'', event3)
               else (Inr (''Event with ID: '' @ event_id @ '' has been updated ('' @
                            join_comma changes' @ '')''), event3)))"









section \<open>Properties of the task store\<close>

lemma find_todo_Some: "find_todo objs tid rs = Some r \<Longrightarrow> r \<in> set rs \<and> id_t (objs ! r) = tid"
  by (induction rs) (auto split: if_splits)

lemma find_todo_None: "find_todo objs tid rs = None \<longleftrightarrow> (\<forall>r\<in>set rs. id_t (objs ! r) \<noteq> tid)"
  by (induction rs) auto

lemma find_todo_cong:
  "(\<forall>r\<in>set rs. id_t (objs' ! r) = id_t (objs ! r)) \<Longrightarrow> find_todo objs' tid rs = find_todo objs tid rs"
  by (induction rs) auto

lemma update_same_id: "id_t x = id_t (objs ! r) \<Longrightarrow> id_t (objs[r := x] ! r') = id_t (objs ! r')"
  by (cases "r < length objs") (auto simp: nth_list_update list_update_beyond)

lemma find_todo_update:
  "id_t x = id_t (objs ! r) \<Longrightarrow> find_todo (objs[r := x]) tid rs = find_todo objs tid rs"
  by (rule find_todo_cong) (simp add: update_same_id)

lemma update_twice:
  "f (f (xs ! r)) = f (xs ! r) \<Longrightarrow> (xs[r := f (xs ! r)])[r := f (xs[r := f (xs ! r)] ! r)] = xs[r := f (xs ! r)]"
  by (cases "r < length xs") (auto simp: list_update_beyond)

lemma status_idem: "update_task_status tid b (snd (update_task_status tid b s)) = update_task_status tid b s"
proof (cases "find_todo (objects s) tid (list_objects s ! todos s)")
  case None
  then show ?thesis by (simp add: update_task_status_def)
next
  case (Some r)
  let ?f = "\<lambda>t. t\<lparr>is_done := b\<rparr>"
  let ?objs' = "(objects s)[r := ?f (objects s ! r)]"
  have "find_todo ?objs' tid (list_objects s ! todos s) = Some r"
    using Some by (simp add: find_todo_update)
  moreover have "?objs'[r := ?f (?objs' ! r)] = ?objs'"
    by (rule update_twice) simp
  ultimately show ?thesis using Some by (simp add: update_task_status_def)
qed

lemma priority_idem: "update_task_priority tid p (snd (update_task_priority tid p s)) = update_task_priority tid p s"
proof (cases "find_todo (objects s) tid (list_objects s ! todos s)")
  case None
  then show ?thesis by (simp add: update_task_priority_def)
next
  case (Some r)
  let ?f = "\<lambda>t. t\<lparr>priority := p\<rparr>"
  let ?objs' = "(objects s)[r := ?f (objects s ! r)]"
  have "find_todo ?objs' tid (list_objects s ! todos s) = Some r"
    using Some by (simp add: find_todo_update)
  moreover have "?objs'[r := ?f (?objs' ! r)] = ?objs'"
    by (rule update_twice) simp
  ultimately show ?thesis using Some by (simp add: update_task_priority_def)
qed

lemma duration_idem: "update_task_estimated_duration tid d (snd (update_task_estimated_duration tid d s)) = update_task_estimated_duration tid d s"
proof (cases "find_todo (objects s) tid (list_objects s ! todos s)")
  case None
  then show ?thesis by (simp add: update_task_estimated_duration_def)
next
  case (Some r)
  let ?f = "\<lambda>t. t\<lparr>estimated_duration_minutes := Some d\<rparr>"
  let ?objs' = "(objects s)[r := ?f (objects s ! r)]"
  have "find_todo ?objs' tid (list_objects s ! todos s) = Some r"
    using Some by (simp add: find_todo_update)
  moreover have "?objs'[r := ?f (?objs' ! r)] = ?objs'"
    by (rule update_twice) simp
  ultimately show ?thesis using Some by (simp add: update_task_estimated_duration_def)
qed

lemma metadata_state:
  "find_todo (objects s) tid (list_objects s ! todos s) = Some r \<Longrightarrow>
   snd (update_task_metadata tid c p s) = s\<lparr>objects := (objects s)[r := set_metadata c p (objects s ! r)]\<rparr>"
  by (simp add: update_task_metadata_def set_metadata_def Let_def split: option.splits)

lemma metadata_msg_cong:
  "find_todo (objects s') tid (list_objects s' ! todos s') = find_todo (objects s) tid (list_objects s ! todos s) \<Longrightarrow>
   fst (update_task_metadata tid c p s') = fst (update_task_metadata tid c p s)"
  by (simp add: update_task_metadata_def Let_def split: option.splits)

lemma metadata_idem: "update_task_metadata tid c p (snd (update_task_metadata tid c p s)) = update_task_metadata tid c p s"
proof (cases "find_todo (objects s) tid (list_objects s ! todos s)")
  case None
  then show ?thesis by (simp add: update_task_metadata_def)
next
  case (Some r)
  let ?f = "set_metadata c p"
  let ?objs' = "(objects s)[r := ?f (objects s ! r)]"
  let ?s' = "s\<lparr>objects := ?objs'\<rparr>"
  have s': "snd (update_task_metadata tid c p s) = ?s'" using Some by (rule metadata_state)
  have idf: "id_t (?f t) = id_t t" for t by (simp add: set_metadata_def split: option.splits)
  have ff: "?f (?f t) = ?f t" for t by (simp add: set_metadata_def split: option.splits)
  have found: "find_todo (objects ?s') tid (list_objects ?s' ! todos ?s') = Some r"
    using Some by (simp add: find_todo_update idf)
  have "?objs'[r := ?f (?objs' ! r)] = ?objs'"
    by (rule update_twice) (rule ff)
  then have "snd (update_task_metadata tid c p ?s') = ?s'"
    using metadata_state[OF found] by simp
  moreover have "fst (update_task_metadata tid c p ?s') = fst (update_task_metadata tid c p s)"
    using found Some by (intro metadata_msg_cong) simp
  ultimately show ?thesis using s' by (simp add: prod_eq_iff)
qed

lemma remove_view:
  "list_current_tasks (snd (remove_task_from_list tid s)) =
     filter (\<lambda>t. id_t t \<noteq> tid) (list_current_tasks s)"
  by (simp add: remove_task_from_list_def list_current_tasks_def Let_def filter_map comp_def)

lemma remove_objects: "objects (snd (remove_task_from_list tid s)) = objects s"
  by (simp add: remove_task_from_list_def Let_def)

lemma remove_main:
  "main_todos s < length (list_objects s) \<Longrightarrow>
   main_tasks (snd (remove_task_from_list tid s)) = main_tasks s"
  by (simp add: remove_task_from_list_def Let_def main_tasks_def nth_append)

lemma length_filter_eq: "length (filter P xs) = length xs \<longleftrightarrow> (\<forall>x\<in>set xs. P x)"
proof
  assume eq: "length (filter P xs) = length xs"
  show "\<forall>x\<in>set xs. P x"
  proof
    fix x assume "x \<in> set xs"
    then show "P x" using length_filter_less[of x xs P] eq by auto
  qed
next
  assume "\<forall>x\<in>set xs. P x"
  then show "length (filter P xs) = length xs" by simp
qed

lemma remove_msg:
  "fst (remove_task_from_list tid s) =
     (if tid \<in> id_t ` set (list_current_tasks s) then ''Task with ID: '' @ tid @ '' has been removed''
      else ''No task found with ID: '' @ tid)"
proof -
  let ?rs = "list_objects s ! todos s"
  let ?P = "\<lambda>r. id_t (objects s ! r) \<noteq> tid"
  have "length (filter ?P ?rs) = length ?rs \<longleftrightarrow> (\<forall>r\<in>set ?rs. ?P r)"
    by (rule length_filter_eq)
  then show ?thesis
    by (auto simp: remove_task_from_list_def Let_def list_current_tasks_def)
qed

lemma length_filter_distinct:
  "distinct (map f xs) \<Longrightarrow> a \<in> f ` set xs \<Longrightarrow> length (filter (\<lambda>x. f x \<noteq> a) xs) + 1 = length xs"
  by (induction xs) (auto simp: image_iff length_filter_eq)

lemma view_update:
  assumes found: "find_todo objs tid rs = Some r"
    and inb: "\<forall>r\<in>set rs. r < length objs"
    and dist: "distinct (map (\<lambda>r. id_t (objs ! r)) rs)"
  shows "map (\<lambda>r'. objs[r := f (objs ! r)] ! r') rs =
         map (\<lambda>t. if id_t t = tid then f t else t) (map (\<lambda>r'. objs ! r') rs)"
proof -
  from found have r: "r \<in> set rs" "id_t (objs ! r) = tid" by (auto dest: find_todo_Some)
  have "objs[r := f (objs ! r)] ! r' = (if id_t (objs ! r') = tid then f (objs ! r') else objs ! r')"
    if "r' \<in> set rs" for r'
  proof (cases "r' = r")
    case True
    then show ?thesis using r inb by simp
  next
    case False
    have "id_t (objs ! r') \<noteq> tid"
    proof
      assume "id_t (objs ! r') = tid"
      then have "id_t (objs ! r') = id_t (objs ! r)" using r by simp
      then have "r' = r" using dist that r(1) by (simp add: distinct_map inj_on_def)
      then show False using False by simp
    qed
    then show ?thesis using False by simp
  qed
  then show ?thesis by simp
qed

lemma others_untouched:
  assumes found: "find_todo objs tid rs = Some r" and same: "id_t x = id_t (objs ! r)"
  shows "filter (\<lambda>t. id_t t \<noteq> tid) (map (\<lambda>r'. objs[r := x] ! r') rs) =
         filter (\<lambda>t. id_t t \<noteq> tid) (map (\<lambda>r'. objs ! r') rs)"
proof -
  from found have r: "id_t (objs ! r) = tid" by (auto dest: find_todo_Some)
  have "id_t (objs[r := x] ! r') = id_t (objs ! r')" for r'
    using same by (rule update_same_id)
  moreover have "objs[r := x] ! r' = objs ! r'" if "id_t (objs ! r') \<noteq> tid" for r'
    using that r by (cases "r' = r") auto
  ultimately show ?thesis by (induction rs) auto
qed

lemma find_todo_in_view:
  "find_todo (objects s) tid (list_objects s ! todos s) = None \<longleftrightarrow> tid \<notin> id_t ` set (list_current_tasks s)"
  by (auto simp: find_todo_None list_current_tasks_def)

lemma status_state:
  "find_todo (objects s) tid (list_objects s ! todos s) = Some r \<Longrightarrow>
   snd (update_task_status tid b s) = s\<lparr>objects := (objects s)[r := (objects s ! r)\<lparr>is_done := b\<rparr>]\<rparr>"
  by (simp add: update_task_status_def)

lemma priority_state:
  "find_todo (objects s) tid (list_objects s ! todos s) = Some r \<Longrightarrow> 1 \<le> p \<Longrightarrow> p \<le> 5 \<Longrightarrow>
   update_task_priority tid p s =
     (''Task with ID: '' @ tid @ '' has been updated to priority '' @ str_int p,
      s\<lparr>objects := (objects s)[r := (objects s ! r)\<lparr>priority := p\<rparr>]\<rparr>)"
  by (simp add: update_task_priority_def)

lemma duration_state:
  "find_todo (objects s) tid (list_objects s ! todos s) = Some r \<Longrightarrow> 0 < d \<Longrightarrow>
   snd (update_task_estimated_duration tid d s) =
      s\<lparr>objects := (objects s)[r := (objects s ! r)\<lparr>estimated_duration_minutes := Some d\<rparr>]\<rparr>"
  by (simp add: update_task_estimated_duration_def)

lemma status_notfound:
  "tid \<notin> id_t ` set (list_current_tasks s) \<Longrightarrow>
   update_task_status tid b s = (''No task found with ID: '' @ tid, s)"
  by (simp add: update_task_status_def find_todo_in_view[symmetric])



lemma metadata_notfound:
  "tid \<notin> id_t ` set (list_current_tasks s) \<Longrightarrow>
   update_task_metadata tid c p s = (''No task found with ID: '' @ tid, s)"
  by (simp add: update_task_metadata_def find_todo_in_view[symmetric])

text \<open>What replacing one object by one with the same id does to the list of tasks.\<close>

lemma replace_untouched:
  assumes f: "find_todo (objects s) tid (list_objects s ! todos s) = Some r"
    and x: "id_t x = id_t (objects s ! r)"
  shows "filter (\<lambda>t. id_t t \<noteq> tid) (list_current_tasks (s\<lparr>objects := (objects s)[r := x]\<rparr>)) =
           filter (\<lambda>t. id_t t \<noteq> tid) (list_current_tasks s) \<and>
         map id_t (list_current_tasks (s\<lparr>objects := (objects s)[r := x]\<rparr>)) =
           map id_t (list_current_tasks s)"
proof -
  have "filter (\<lambda>t. id_t t \<noteq> tid) (list_current_tasks (s\<lparr>objects := (objects s)[r := x]\<rparr>)) =
           filter (\<lambda>t. id_t t \<noteq> tid) (list_current_tasks s)"
    using others_untouched[OF f x] by (simp add: list_current_tasks_def)
  moreover have "map id_t (list_current_tasks (s\<lparr>objects := (objects s)[r := x]\<rparr>)) =
       map id_t (list_current_tasks s)"
    using update_same_id[OF x] by (simp add: list_current_tasks_def)
  ultimately show ?thesis by simp
qed

lemma status_untouched:
  "filter (\<lambda>t. id_t t \<noteq> tid) (list_current_tasks (snd (update_task_status tid b s))) =
     filter (\<lambda>t. id_t t \<noteq> tid) (list_current_tasks s) \<and>
   map id_t (list_current_tasks (snd (update_task_status tid b s))) = map id_t (list_current_tasks s)"
proof (cases "find_todo (objects s) tid (list_objects s ! todos s)")
  case None
  then show ?thesis by (simp add: update_task_status_def)
next
  case (Some r)
  show ?thesis using replace_untouched[OF Some, of "(objects s ! r)\<lparr>is_done := b\<rparr>"]
    by (simp add: status_state[OF Some])
qed

lemma priority_untouched:
  "filter (\<lambda>t. id_t t \<noteq> tid) (list_current_tasks (snd (update_task_priority tid p s))) =
     filter (\<lambda>t. id_t t \<noteq> tid) (list_current_tasks s) \<and>
   map id_t (list_current_tasks (snd (update_task_priority tid p s))) = map id_t (list_current_tasks s)"
proof (cases "find_todo (objects s) tid (list_objects s ! todos s)")
  case None
  then show ?thesis by (simp add: update_task_priority_def)
next
  case (Some r)
  show ?thesis
  proof (cases "1 \<le> p \<and> p \<le> 5")
    case True
    then show ?thesis using replace_untouched[OF Some, of "(objects s ! r)\<lparr>priority := p\<rparr>"]
      by (simp add: priority_state[OF Some])
  next
    case False
    then show ?thesis by (auto simp: update_task_priority_def)
  qed
qed

lemma duration_untouched:
  "filter (\<lambda>t. id_t t \<noteq> tid) (list_current_tasks (snd (update_task_estimated_duration tid d s))) =
     filter (\<lambda>t. id_t t \<noteq> tid) (list_current_tasks s) \<and>
   map id_t (list_current_tasks (snd (update_task_estimated_duration tid d s))) =
     map id_t (list_current_tasks s)"
proof (cases "find_todo (objects s) tid (list_objects s ! todos s)")
  case None
  then show ?thesis by (simp add: update_task_estimated_duration_def)
next
  case (Some r)
  show ?thesis
  proof (cases "0 < d")
    case True
    then show ?thesis
      using replace_untouched[OF Some, of "(objects s ! r)\<lparr>estimated_duration_minutes := Some d\<rparr>"]
      by (simp add: duration_state[OF Some])
  next
    case False
    then show ?thesis by (simp add: update_task_estimated_duration_def)
  qed
qed

lemma set_metadata_id: "id_t (set_metadata c p t) = id_t t"
  by (simp add: set_metadata_def split: option.splits)

lemma metadata_untouched:
  "filter (\<lambda>t. id_t t \<noteq> tid) (list_current_tasks (snd (update_task_metadata tid c pp s))) =
     filter (\<lambda>t. id_t t \<noteq> tid) (list_current_tasks s) \<and>
   map id_t (list_current_tasks (snd (update_task_metadata tid c pp s))) =
     map id_t (list_current_tasks s)"
proof (cases "find_todo (objects s) tid (list_objects s ! todos s)")
  case None
  then show ?thesis by (simp add: update_task_metadata_def)
next
  case (Some r)
  show ?thesis
    using replace_untouched[OF Some, of "set_metadata c pp (objects s ! r)"]
    by (simp add: metadata_state[OF Some] set_metadata_id)
qed

lemma remove_twice:
  "list_current_tasks (snd (remove_task_from_list tid (snd (remove_task_from_list tid s)))) =
     list_current_tasks (snd (remove_task_from_list tid s))"
  "objects (snd (remove_task_from_list tid (snd (remove_task_from_list tid s)))) =
     objects (snd (remove_task_from_list tid s))"
  by (simp_all add: remove_view remove_objects)

lemma store_ok_view:
  assumes ok: "store_ok s" and f: "find_todo (objects s) tid (list_objects s ! todos s) = Some r"
  shows "list_current_tasks (s\<lparr>objects := (objects s)[r := g (objects s ! r)]\<rparr>) =
         map (\<lambda>t. if id_t t = tid then g t else t) (list_current_tasks s)"
proof -
  have inb: "\<forall>r\<in>set (list_objects s ! todos s). r < length (objects s)"
    and dist: "distinct (map (\<lambda>r. id_t (objects s ! r)) (list_objects s ! todos s))"
    using ok by (simp_all add: store_ok_def list_current_tasks_def comp_def)
  show ?thesis using view_update[OF f inb dist, of g] by (simp add: list_current_tasks_def)
qed

text \<open>
  Claim C5. Whatever the task id, \<^verbatim>\<open>update_task_priority\<close> with a priority below 1 or
  above 5 returns the string \<^verbatim>\<open>Priority must be between 1 and 5\<close> and leaves the whole
  module state as it was. With a priority from 1 to 5 and the id of a task of the list,
  it returns the confirmation and the list is the old one with the priority of that task
  set, in the same list object.
\<close>

theorem update_task_priority_range:
  "(priority' < 1 \<or> 5 < priority' \<longrightarrow>
      update_task_priority task_id priority' s = (''Priority must be between 1 and 5'', s)) \<and>
   (store_ok s \<and> 1 \<le> priority' \<and> priority' \<le> 5 \<and> task_id \<in> id_t ` set (list_current_tasks s) \<longrightarrow>
      fst (update_task_priority task_id priority' s) =
        ''Task with ID: '' @ task_id @ '' has been updated to priority '' @ str_int priority' \<and>
      list_current_tasks (snd (update_task_priority task_id priority' s)) =
        map (\<lambda>t. if id_t t = task_id then t\<lparr>priority := priority'\<rparr> else t) (list_current_tasks s) \<and>
      list_objects (snd (update_task_priority task_id priority' s)) = list_objects s \<and>
      todos (snd (update_task_priority task_id priority' s)) = todos s)"
proof (intro conjI impI)
  assume "priority' < 1 \<or> 5 < priority'"
  then show "update_task_priority task_id priority' s = (''Priority must be between 1 and 5'', s)"
    by (auto simp: update_task_priority_def)
next
  assume a: "store_ok s \<and> 1 \<le> priority' \<and> priority' \<le> 5 \<and> task_id \<in> id_t ` set (list_current_tasks s)"
  then obtain r where f: "find_todo (objects s) task_id (list_objects s ! todos s) = Some r"
    using find_todo_in_view[of s task_id] by (cases "find_todo (objects s) task_id (list_objects s ! todos s)") auto
  note st = priority_state[OF f, of priority']
  show "fst (update_task_priority task_id priority' s) =
        ''Task with ID: '' @ task_id @ '' has been updated to priority '' @ str_int priority'"
    using a st by simp
  show "list_current_tasks (snd (update_task_priority task_id priority' s)) =
        map (\<lambda>t. if id_t t = task_id then t\<lparr>priority := priority'\<rparr> else t) (list_current_tasks s)"
    using a st store_ok_view[OF _ f, of "\<lambda>t. t\<lparr>priority := priority'\<rparr>"] by simp
  show "list_objects (snd (update_task_priority task_id priority' s)) = list_objects s"
    using a st by simp
  show "todos (snd (update_task_priority task_id priority' s)) = todos s"
    using a st by simp
qed

text \<open>
  Claim C6. \<^verbatim>\<open>remove_task_from_list\<close> with an identifier that no task of the list has
  returns \<^verbatim>\<open>No task found with ID: ...\<close> and the list of tasks is unchanged. With the
  identifier of a task, in a list whose identifiers are distinct, it returns the
  confirmation, the list is shorter by exactly one and the identifier is no longer in
  what \<^verbatim>\<open>list_current_tasks\<close> returns.
\<close>

theorem remove_task_from_list_outcomes:
  "(task_id \<notin> id_t ` set (list_current_tasks s) \<longrightarrow>
      fst (remove_task_from_list task_id s) = ''No task found with ID: '' @ task_id \<and>
      list_current_tasks (snd (remove_task_from_list task_id s)) = list_current_tasks s) \<and>
   (distinct (map id_t (list_current_tasks s)) \<and> task_id \<in> id_t ` set (list_current_tasks s) \<longrightarrow>
      fst (remove_task_from_list task_id s) = ''Task with ID: '' @ task_id @ '' has been removed'' \<and>
      length (list_current_tasks (snd (remove_task_from_list task_id s))) + 1 =
        length (list_current_tasks s) \<and>
      task_id \<notin> id_t ` set (list_current_tasks (snd (remove_task_from_list task_id s))))"
proof (intro conjI impI)
  assume a: "task_id \<notin> id_t ` set (list_current_tasks s)"
  then show "fst (remove_task_from_list task_id s) = ''No task found with ID: '' @ task_id"
    by (simp add: remove_msg)
  have "\<forall>t\<in>set (list_current_tasks s). id_t t \<noteq> task_id" using a by auto
  then show "list_current_tasks (snd (remove_task_from_list task_id s)) = list_current_tasks s"
    by (simp add: remove_view)
next
  assume a: "distinct (map id_t (list_current_tasks s)) \<and> task_id \<in> id_t ` set (list_current_tasks s)"
  then show "fst (remove_task_from_list task_id s) = ''Task with ID: '' @ task_id @ '' has been removed''"
    by (simp add: remove_msg)
  show "length (list_current_tasks (snd (remove_task_from_list task_id s))) + 1 =
        length (list_current_tasks s)"
    using a length_filter_distinct[of id_t "list_current_tasks s" task_id] by (simp add: remove_view)
  show "task_id \<notin> id_t ` set (list_current_tasks (snd (remove_task_from_list task_id s)))"
    by (auto simp: remove_view)
qed

text \<open>
  Claim C8. Each of the four update tools, applied a second time with the same arguments,
  returns what it returned the first time and the same module state; a second
  \<^verbatim>\<open>remove_task_from_list\<close> leaves the list of tasks and the objects as the first one
  left them. The target is found by equality of identifiers: removal keeps exactly the
  tasks with another identifier, an update leaves every task with another identifier and
  the identifiers of all tasks as they were, and an update with an identifier that no
  task has changes nothing.
\<close>

theorem mutating_operations_idempotent:
  "update_task_status task_id b (snd (update_task_status task_id b s)) =
     update_task_status task_id b s \<and>
   update_task_priority task_id p (snd (update_task_priority task_id p s)) =
     update_task_priority task_id p s \<and>
   update_task_estimated_duration task_id d (snd (update_task_estimated_duration task_id d s)) =
     update_task_estimated_duration task_id d s \<and>
   update_task_metadata task_id c pp (snd (update_task_metadata task_id c pp s)) =
     update_task_metadata task_id c pp s \<and>
   list_current_tasks (snd (remove_task_from_list task_id (snd (remove_task_from_list task_id s)))) =
     list_current_tasks (snd (remove_task_from_list task_id s)) \<and>
   objects (snd (remove_task_from_list task_id (snd (remove_task_from_list task_id s)))) =
     objects (snd (remove_task_from_list task_id s)) \<and>
   list_current_tasks (snd (remove_task_from_list task_id s)) =
     filter (\<lambda>t. id_t t \<noteq> task_id) (list_current_tasks s) \<and>
   filter (\<lambda>t. id_t t \<noteq> task_id) (list_current_tasks (snd (update_task_status task_id b s))) =
     filter (\<lambda>t. id_t t \<noteq> task_id) (list_current_tasks s) \<and>
   map id_t (list_current_tasks (snd (update_task_status task_id b s))) = map id_t (list_current_tasks s) \<and>
   filter (\<lambda>t. id_t t \<noteq> task_id) (list_current_tasks (snd (update_task_priority task_id p s))) =
     filter (\<lambda>t. id_t t \<noteq> task_id) (list_current_tasks s) \<and>
   map id_t (list_current_tasks (snd (update_task_priority task_id p s))) = map id_t (list_current_tasks s) \<and>
   filter (\<lambda>t. id_t t \<noteq> task_id) (list_current_tasks (snd (update_task_estimated_duration task_id d s))) =
     filter (\<lambda>t. id_t t \<noteq> task_id) (list_current_tasks s) \<and>
   map id_t (list_current_tasks (snd (update_task_estimated_duration task_id d s))) = map id_t (list_current_tasks s) \<and>
   filter (\<lambda>t. id_t t \<noteq> task_id) (list_current_tasks (snd (update_task_metadata task_id c pp s))) =
     filter (\<lambda>t. id_t t \<noteq> task_id) (list_current_tasks s) \<and>
   map id_t (list_current_tasks (snd (update_task_metadata task_id c pp s))) = map id_t (list_current_tasks s) \<and>
   (task_id \<notin> id_t ` set (list_current_tasks s) \<longrightarrow>
      snd (update_task_status task_id b s) = s \<and> snd (update_task_priority task_id p s) = s \<and>
      snd (update_task_estimated_duration task_id d s) = s \<and>
      snd (update_task_metadata task_id c pp s) = s)"
proof -
  have nf: "snd (update_task_priority task_id p s) = s \<and>
      snd (update_task_estimated_duration task_id d s) = s"
    if "task_id \<notin> id_t ` set (list_current_tasks s)"
    using that
    by (simp add: update_task_priority_def update_task_estimated_duration_def
        find_todo_in_view[symmetric])
  show ?thesis
    using status_idem[of task_id b s] priority_idem[of task_id p s] duration_idem[of task_id d s]
      metadata_idem[of task_id c pp s] remove_twice[of task_id s] remove_view[of task_id s]
      status_untouched[of task_id b s] priority_untouched[of task_id p s]
      duration_untouched[of task_id d s] metadata_untouched[of task_id c pp s]
      status_notfound[of task_id s b] metadata_notfound[of task_id s c pp] nf
    by simp
qed

lemma store_ok_initial: "store_ok initial_module"
  by (simp add: store_ok_def initial_module_def list_current_tasks_def)

lemma add_view:
  assumes "store_ok s"
  shows "list_current_tasks (snd (add_task_to_list u d p e c pp s)) =
         list_current_tasks s @ [\<lparr>id_t = u, description_t = d, is_done = False, priority = p,
            estimated_duration_minutes = e, category = c, project_or_path = pp\<rparr>]"
proof -
  have "\<forall>r\<in>set (list_objects s ! todos s). r < length (objects s)" "todos s < length (list_objects s)"
    using assms by (simp_all add: store_ok_def)
  then show ?thesis
    by (simp add: add_task_to_list_def list_current_tasks_def Let_def nth_append)
qed

lemma store_ok_add:
  assumes ok: "store_ok s" and fresh: "u \<notin> id_t ` set (list_current_tasks s)"
  shows "store_ok (snd (add_task_to_list u d p e c pp s))"
proof -
  let ?s' = "snd (add_task_to_list u d p e c pp s)"
  have "distinct (map id_t (list_current_tasks ?s'))"
    using ok fresh by (simp add: add_view store_ok_def)
  moreover have "todos ?s' < length (list_objects ?s')" "main_todos ?s' < length (list_objects ?s')"
    using ok by (simp_all add: add_task_to_list_def Let_def store_ok_def)
  moreover have "\<forall>r\<in>set (list_objects ?s' ! todos ?s'). r < length (objects ?s')"
    using ok by (auto simp: add_task_to_list_def Let_def store_ok_def)
  ultimately show ?thesis by (simp add: store_ok_def)
qed

lemma store_ok_remove:
  assumes ok: "store_ok s"
  shows "store_ok (snd (remove_task_from_list tid s))"
proof -
  let ?s' = "snd (remove_task_from_list tid s)"
  have "distinct (map id_t (list_current_tasks ?s'))"
    using ok by (simp add: remove_view store_ok_def distinct_map_filter)
  moreover have "todos ?s' < length (list_objects ?s')" "main_todos ?s' < length (list_objects ?s')"
    using ok by (simp_all add: remove_task_from_list_def Let_def store_ok_def)
  moreover have "\<forall>r\<in>set (list_objects ?s' ! todos ?s'). r < length (objects ?s')"
    using ok by (auto simp: remove_task_from_list_def Let_def store_ok_def)
  ultimately show ?thesis by (simp add: store_ok_def)
qed

lemma store_ok_replace:
  assumes ok: "store_ok s" and ids: "map id_t (list_current_tasks s') = map id_t (list_current_tasks s)"
    and same: "list_objects s' = list_objects s" "todos s' = todos s" "main_todos s' = main_todos s"
       "length (objects s') = length (objects s)"
  shows "store_ok s'"
  using ok ids same by (simp add: store_ok_def)

lemma update_frame:
  "list_objects (snd (update_task_status tid b s)) = list_objects s \<and>
   todos (snd (update_task_status tid b s)) = todos s \<and>
   main_todos (snd (update_task_status tid b s)) = main_todos s \<and>
   length (objects (snd (update_task_status tid b s))) = length (objects s)"
  "list_objects (snd (update_task_priority tid p s)) = list_objects s \<and>
   todos (snd (update_task_priority tid p s)) = todos s \<and>
   main_todos (snd (update_task_priority tid p s)) = main_todos s \<and>
   length (objects (snd (update_task_priority tid p s))) = length (objects s)"
  "list_objects (snd (update_task_estimated_duration tid d s)) = list_objects s \<and>
   todos (snd (update_task_estimated_duration tid d s)) = todos s \<and>
   main_todos (snd (update_task_estimated_duration tid d s)) = main_todos s \<and>
   length (objects (snd (update_task_estimated_duration tid d s))) = length (objects s)"
  "list_objects (snd (update_task_metadata tid c pp s)) = list_objects s \<and>
   todos (snd (update_task_metadata tid c pp s)) = todos s \<and>
   main_todos (snd (update_task_metadata tid c pp s)) = main_todos s \<and>
   length (objects (snd (update_task_metadata tid c pp s))) = length (objects s)"
  by (simp_all add: update_task_status_def update_task_priority_def
      update_task_estimated_duration_def update_task_metadata_def Let_def
      split: option.splits prod.splits)

lemma call_ids:
  "store_ok s \<Longrightarrow> id_t ` set (list_current_tasks (call_todo_tool c s)) \<subseteq>
     id_t ` set (list_current_tasks s) \<union> set (uuids [c])"
proof (cases c)
  case (AddTask u d p e cc pp)
  assume "store_ok s"
  then show ?thesis using AddTask by (auto simp: add_view)
next
  case ListTasks
  then show ?thesis by simp
next
  case (RemoveTask i)
  then show ?thesis by (auto simp: remove_view)
next
  case (SetStatus i b)
  have "set (map id_t (list_current_tasks (call_todo_tool c s))) = set (map id_t (list_current_tasks s))"
    using status_untouched[of i b s] SetStatus by simp
  then show ?thesis by auto
next
  case (SetPriority i p)
  have "set (map id_t (list_current_tasks (call_todo_tool c s))) = set (map id_t (list_current_tasks s))"
    using priority_untouched[of i p s] SetPriority by simp
  then show ?thesis by auto
next
  case (SetDuration i d)
  have "set (map id_t (list_current_tasks (call_todo_tool c s))) = set (map id_t (list_current_tasks s))"
    using duration_untouched[of i d s] SetDuration by simp
  then show ?thesis by auto
next
  case (SetMetadata i cc pp)
  have "set (map id_t (list_current_tasks (call_todo_tool c s))) = set (map id_t (list_current_tasks s))"
    using metadata_untouched[of i cc pp s] SetMetadata by simp
  then show ?thesis by auto
qed

lemma call_ok:
  assumes ok: "store_ok s" and fresh: "set (uuids [c]) \<inter> id_t ` set (list_current_tasks s) = {}"
  shows "store_ok (call_todo_tool c s)"
proof (cases c)
  case (AddTask u d p e cc pp)
  then show ?thesis using ok fresh by (simp add: store_ok_add)
next
  case ListTasks
  then show ?thesis using ok by simp
next
  case (RemoveTask i)
  then show ?thesis using ok by (simp add: store_ok_remove)
next
  case (SetStatus i b)
  then show ?thesis
    using store_ok_replace[OF ok, of "snd (update_task_status i b s)"]
      status_untouched[of i b s] update_frame(1)[of i b s] by simp
next
  case (SetPriority i p)
  then show ?thesis
    using store_ok_replace[OF ok, of "snd (update_task_priority i p s)"]
      priority_untouched[of i p s] update_frame(2)[of i p s] by simp
next
  case (SetDuration i d)
  then show ?thesis
    using store_ok_replace[OF ok, of "snd (update_task_estimated_duration i d s)"]
      duration_untouched[of i d s] update_frame(3)[of i d s] by simp
next
  case (SetMetadata i cc pp)
  then show ?thesis
    using store_ok_replace[OF ok, of "snd (update_task_metadata i cc pp s)"]
      metadata_untouched[of i cc pp s] update_frame(4)[of i cc pp s] by simp
qed

lemma uuids_Cons: "uuids (c # cs) = uuids [c] @ uuids cs"
  by (cases c) simp_all

lemma run_ok:
  "store_ok s \<Longrightarrow> distinct (uuids cs) \<Longrightarrow> set (uuids cs) \<inter> id_t ` set (list_current_tasks s) = {} \<Longrightarrow>
   store_ok (run_todo_tools cs s)"
proof (induction cs arbitrary: s)
  case Nil
  then show ?case by simp
next
  case (Cons c cs)
  have u: "uuids (c # cs) = uuids [c] @ uuids cs" by (rule uuids_Cons)
  have ok': "store_ok (call_todo_tool c s)"
    using Cons.prems u by (intro call_ok) auto
  have "set (uuids cs) \<inter> id_t ` set (list_current_tasks (call_todo_tool c s)) = {}"
    using call_ids[OF Cons.prems(1), of c] Cons.prems(2,3) u by auto
  moreover have "distinct (uuids cs)" using Cons.prems(2) u by simp
  ultimately show ?case using Cons.IH[OF ok'] by simp
qed

lemma reachable_store_ok:
  "distinct (uuids cs) \<Longrightarrow> store_ok (run_todo_tools cs initial_module)"
  using run_ok[OF store_ok_initial, of cs] by (simp add: initial_module_def list_current_tasks_def)

lemma aliased_views_agree: "main_todos s = todos s \<Longrightarrow> main_tasks s = list_current_tasks s"
  by (simp add: main_tasks_def list_current_tasks_def)

text \<open>
  Every tool but \<^verbatim>\<open>remove_task_from_list\<close> leaves both names bound to the same list
  object, so without a removal the list that \<^verbatim>\<open>main.py\<close> holds is the list of the
  tools.
\<close>

lemma alias_kept:
  "main_todos s = todos s \<Longrightarrow> (\<forall>i. c \<noteq> RemoveTask i) \<Longrightarrow>
   main_todos (call_todo_tool c s) = todos (call_todo_tool c s)"
  by (cases c) (simp_all add: add_task_to_list_def Let_def update_frame)

lemma run_alias_kept:
  "main_todos s = todos s \<Longrightarrow> (\<forall>i. RemoveTask i \<notin> set cs) \<Longrightarrow>
   main_todos (run_todo_tools cs s) = todos (run_todo_tools cs s)"
proof (induction cs arbitrary: s)
  case Nil
  then show ?case by simp
next
  case (Cons c cs)
  have "main_todos (call_todo_tool c s) = todos (call_todo_tool c s)"
    using Cons.prems by (intro alias_kept) auto
  then show ?case using Cons.IH[of "call_todo_tool c s"] Cons.prems(2) by simp
qed

lemma main_list_agrees_without_removal:
  "(\<forall>i. RemoveTask i \<notin> set cs) \<Longrightarrow>
   main_tasks (run_todo_tools cs initial_module) = list_current_tasks (run_todo_tools cs initial_module)"
  using run_alias_kept[of initial_module cs]
  by (simp add: aliased_views_agree initial_module_def)

text \<open>
  Claim C1 says that \<^verbatim>\<open>get_todos\<close> and \<^verbatim>\<open>list_current_tasks\<close> return the same list
  after any sequence of tool calls. They do not. After a removal (here of an id that no
  task has) and an addition, \<^verbatim>\<open>list_current_tasks\<close> returns the new task and
  \<^verbatim>\<open>get_todos\<close> returns the empty list: \<^verbatim>\<open>remove_task_from_list\<close> has bound the
  global to a new list, and the name in \<^verbatim>\<open>main.py\<close> is still bound to the old one.
  And after a single addition, with both names still bound to the same list,
  \<^verbatim>\<open>list_current_tasks\<close> returns the task and \<^verbatim>\<open>get_todos\<close> raises
  \<^verbatim>\<open>HTTPException(500)\<close>, as \<^verbatim>\<open>TaskListResponse\<close> does not take \<^verbatim>\<open>TodoItem\<close> objects.
\<close>

theorem gateway_differs_from_tools:
  "list_current_tasks
     (run_todo_tools [RemoveTask ''u0'', AddTask ''u1'' ''a'' 3 None None None] initial_module) =
     [\<lparr>id_t = ''u1'', description_t = ''a'', is_done = False, priority = 3,
       estimated_duration_minutes = None, category = None, project_or_path = None\<rparr>] \<and>
   get_todos
     (run_todo_tools [RemoveTask ''u0'', AddTask ''u1'' ''a'' 3 None None None] initial_module) =
     Inr [] \<and>
   list_current_tasks (run_todo_tools [AddTask ''u1'' ''a'' 3 None None None] initial_module) =
     [\<lparr>id_t = ''u1'', description_t = ''a'', is_done = False, priority = 3,
       estimated_duration_minutes = None, category = None, project_or_path = None\<rparr>] \<and>
   get_todos (run_todo_tools [AddTask ''u1'' ''a'' 3 None None None] initial_module) =
     Inl (HTTPException 500)"
  by (simp add: initial_module_def add_task_to_list_def remove_task_from_list_def
      list_current_tasks_def get_todos_def main_tasks_def TaskListResponse_def Let_def)

lemmas todo_eval = initial_module_def add_task_to_list_def remove_task_from_list_def
  list_current_tasks_def main_tasks_def store_ok_def Let_def update_task_priority_def
  update_task_status_def update_task_estimated_duration_def update_task_metadata_def

text \<open>
  Witness for C5: a list of one task with priority 3; priority 6 is refused and changes
  nothing, the boundary values 5 and 1 are stored.
\<close>

theorem update_task_priority_range_witness:
  "update_task_priority ''u1'' 6
      (snd (add_task_to_list ''u1'' ''a'' 3 None None None initial_module)) =
     (''Priority must be between 1 and 5'',
      snd (add_task_to_list ''u1'' ''a'' 3 None None None initial_module)) \<and>
   store_ok (snd (add_task_to_list ''u1'' ''a'' 3 None None None initial_module)) \<and>
   ''u1'' \<in> id_t ` set (list_current_tasks
      (snd (add_task_to_list ''u1'' ''a'' 3 None None None initial_module))) \<and>
   map priority (list_current_tasks (snd (update_task_priority ''u1'' 5
      (snd (add_task_to_list ''u1'' ''a'' 3 None None None initial_module))))) = [5] \<and>
   map priority (list_current_tasks (snd (update_task_priority ''u1'' 1
      (snd (add_task_to_list ''u1'' ''a'' 3 None None None initial_module))))) = [1]"
proof -
  let ?s = "snd (add_task_to_list ''u1'' ''a'' 3 None None None initial_module)"
  have ok: "store_ok ?s" by (simp add: todo_eval)
  have inn: "''u1'' \<in> id_t ` set (list_current_tasks ?s)" by (simp add: todo_eval)
  have v: "list_current_tasks ?s = [\<lparr>id_t = ''u1'', description_t = ''a'', is_done = False,
      priority = 3, estimated_duration_minutes = None, category = None, project_or_path = None\<rparr>]"
    by (simp add: todo_eval)
  show ?thesis
    using update_task_priority_range[of 6 "''u1''" ?s] update_task_priority_range[of 5 "''u1''" ?s]
      update_task_priority_range[of 1 "''u1''" ?s] ok inn
    by (simp add: v)
qed

text \<open>
  Witness for C6: a list with the single task \<^verbatim>\<open>u1\<close>; removing \<^verbatim>\<open>u2\<close> finds nothing,
  removing \<^verbatim>\<open>u1\<close> leaves the empty list.
\<close>

theorem remove_task_from_list_outcomes_witness:
  "''u2'' \<notin> id_t ` set (list_current_tasks
      (snd (add_task_to_list ''u1'' ''a'' 3 None None None initial_module))) \<and>
   fst (remove_task_from_list ''u2''
      (snd (add_task_to_list ''u1'' ''a'' 3 None None None initial_module))) =
     ''No task found with ID: u2'' \<and>
   length (list_current_tasks (snd (remove_task_from_list ''u2''
      (snd (add_task_to_list ''u1'' ''a'' 3 None None None initial_module))))) = 1 \<and>
   distinct (map id_t (list_current_tasks
      (snd (add_task_to_list ''u1'' ''a'' 3 None None None initial_module)))) \<and>
   ''u1'' \<in> id_t ` set (list_current_tasks
      (snd (add_task_to_list ''u1'' ''a'' 3 None None None initial_module))) \<and>
   fst (remove_task_from_list ''u1''
      (snd (add_task_to_list ''u1'' ''a'' 3 None None None initial_module))) =
     ''Task with ID: u1 has been removed'' \<and>
   length (list_current_tasks (snd (remove_task_from_list ''u1''
      (snd (add_task_to_list ''u1'' ''a'' 3 None None None initial_module))))) = 0"
proof -
  let ?s = "snd (add_task_to_list ''u1'' ''a'' 3 None None None initial_module)"
  have v: "list_current_tasks ?s = [\<lparr>id_t = ''u1'', description_t = ''a'', is_done = False,
      priority = 3, estimated_duration_minutes = None, category = None, project_or_path = None\<rparr>]"
    by (simp add: todo_eval)
  show ?thesis
    using remove_task_from_list_outcomes[of "''u2''" ?s]
      remove_task_from_list_outcomes[of "''u1''" ?s]
    by (simp add: v)
qed

text \<open>
  Witness for C8: marking the task \<^verbatim>\<open>u1\<close> as done twice, and an update for the absent
  identifier \<^verbatim>\<open>u2\<close>.
\<close>

theorem mutating_operations_idempotent_witness:
  "update_task_status ''u1'' True (snd (update_task_status ''u1'' True
      (snd (add_task_to_list ''u1'' ''a'' 3 None None None initial_module)))) =
   update_task_status ''u1'' True
      (snd (add_task_to_list ''u1'' ''a'' 3 None None None initial_module)) \<and>
   ''u2'' \<notin> id_t ` set (list_current_tasks
      (snd (add_task_to_list ''u1'' ''a'' 3 None None None initial_module))) \<and>
   snd (update_task_status ''u2'' True
      (snd (add_task_to_list ''u1'' ''a'' 3 None None None initial_module))) =
     snd (add_task_to_list ''u1'' ''a'' 3 None None None initial_module)"
proof -
  let ?s = "snd (add_task_to_list ''u1'' ''a'' 3 None None None initial_module)"
  have v: "list_current_tasks ?s = [\<lparr>id_t = ''u1'', description_t = ''a'', is_done = False,
      priority = 3, estimated_duration_minutes = None, category = None, project_or_path = None\<rparr>]"
    by (simp add: todo_eval)
  show ?thesis
    using mutating_operations_idempotent[of "''u1''" True ?s 1 1 None None]
      mutating_operations_idempotent[of "''u2''" True ?s 1 1 None None]
    by (simp add: v)
qed

section \<open>Properties of the calendar store\<close>
















lemma collect_events_filter:
  "collect_events day evs acc = acc @ filter (\<lambda>e. date_of (start_time e) = day) evs"
  by (induction evs arbitrary: acc) auto












lemmas iso_eval = iso_parse_def parse_date_def parse_time_def digit_of_def ymd2ord_def
  days_before_year_def days_before_month_def days_in_month_def is_leap_def

lemmas cal_eval = create_calendar_event_def add_timedelta_def datetime_ok_def datetime_max_def
  timedelta_minutes_def update_event_def shift_start_def override_duration_def Let_def

lemma iso_0900: "iso_parse ''2024-01-01T09:00:00'' = Some 63839696400000000"
  by (simp add: iso_eval)

lemma iso_0930: "iso_parse ''2024-01-01T09:30:00'' = Some 63839698200000000"
  by (simp add: iso_eval)





text \<open>
  Claim C4, amended. For every start string that parses and every duration for which
  start plus duration is a \<^verbatim>\<open>datetime\<close> (not after 9999-12-31T23:59:59.999999, not
  before 0001-01-01T00:00:00), \<^verbatim>\<open>create_calendar_event\<close> returns the confirmation and
  appends one event whose end time is the parsed start plus \<open>duration_minutes\<close> minutes.
\<close>

theorem create_calendar_event_end_time:
  "f start_time' = Some start_datetime \<Longrightarrow>
   datetime_ok (start_datetime + timedelta_minutes duration_minutes) \<Longrightarrow>
   create_calendar_event f event_id title' start_time' duration_minutes description' location' evs =
     (Inr (''Calendar event created with ID: '' @ event_id),
      evs @ [\<lparr>id_e = event_id, title = title', start_time = start_datetime,
               end_time = start_datetime + timedelta_minutes duration_minutes,
               description_e = description', location = location'\<rparr>])"
  by (simp add: create_calendar_event_def add_timedelta_def)

text \<open>
  Witness for C4, the example of the specification: start \<^verbatim>\<open>2024-01-01T09:00:00\<close> and
  duration 30 give the end time that \<^verbatim>\<open>2024-01-01T09:30:00\<close> denotes.
\<close>

theorem create_calendar_event_end_time_witness:
  "iso_parse ''2024-01-01T09:00:00'' = Some 63839696400000000 \<and>
   datetime_ok (63839696400000000 + timedelta_minutes 30) \<and>
   create_calendar_event iso_parse ''e1'' ''standup'' ''2024-01-01T09:00:00'' 30 None None [] =
     (Inr ''Calendar event created with ID: e1'',
      [\<lparr>id_e = ''e1'', title = ''standup'', start_time = 63839696400000000,
        end_time = 63839698200000000, description_e = None, location = None\<rparr>]) \<and>
   iso_parse ''2024-01-01T09:30:00'' = Some 63839698200000000"
proof -
  have ok: "datetime_ok (63839696400000000 + timedelta_minutes 30)"
    by (simp add: datetime_ok_def datetime_max_def timedelta_minutes_def)
  show ?thesis
    using create_calendar_event_end_time[where f = iso_parse and start_time' = "''2024-01-01T09:00:00''"
        and start_datetime = 63839696400000000 and duration_minutes = 30 and event_id = "''e1''"
        and title' = "''standup''" and description' = None and location' = None and evs = "[]"]
      iso_0900 iso_0930 ok
    by (simp add: timedelta_minutes_def)
qed

text \<open>
  Counterexample to C4 as stated (every duration): the start parses, the duration of
  10000000000 minutes leads past the year 9999, the addition raises
  \<^verbatim>\<open>OverflowError\<close>, which \<^verbatim>\<open>except ValueError\<close> does not catch, and no event is
  stored.
\<close>

theorem create_calendar_event_overflow_counterexample:
  "iso_parse ''2024-01-01T09:00:00'' = Some 63839696400000000 \<and>
   create_calendar_event iso_parse ''e1'' ''standup'' ''2024-01-01T09:00:00'' 10000000000 None None [] =
     (Inl OverflowError, [])"
  by (simp add: iso_0900 cal_eval)










text \<open>
  Claim C7. \<^verbatim>\<open>list_calendar_events\<close> returns the whole list when no date is given;
  when the date parses, the events whose start is on the day of the parsed date, in the
  order of the list; and the whole list when the date does not parse.
\<close>

theorem list_calendar_events_filter:
  "list_calendar_events f None evs = evs \<and>
   (f date = Some filter_date \<longrightarrow>
      list_calendar_events f (Some date) evs =
        filter (\<lambda>event. date_of (start_time event) = date_of filter_date) evs) \<and>
   (f date = None \<longrightarrow> list_calendar_events f (Some date) evs = evs)"
  by (simp add: list_calendar_events_def collect_events_filter)

lemma iso_day1: "iso_parse ''2024-01-01'' = Some 63839664000000000"
  by (simp add: iso_eval)

lemma iso_not_a_date: "iso_parse ''not-a-date'' = None"
  by (simp add: iso_eval)

lemma iso_day2_0900: "iso_parse ''2024-01-02T09:00:00'' = Some 63839782800000000"
  by (simp add: iso_eval)

text \<open>
  Witness for C7: events on 2024-01-01 and on 2024-01-02; the date \<^verbatim>\<open>2024-01-01\<close> selects
  the first, the date \<^verbatim>\<open>not-a-date\<close> returns both.
\<close>

theorem list_calendar_events_filter_witness:
  "iso_parse ''2024-01-01'' = Some 63839664000000000 \<and>
   iso_parse ''not-a-date'' = None \<and>
   map id_e (list_calendar_events iso_parse (Some ''2024-01-01'')
     (snd (create_calendar_event iso_parse ''e2'' ''review'' ''2024-01-02T09:00:00'' 30 None None
       (snd (create_calendar_event iso_parse ''e1'' ''standup'' ''2024-01-01T09:00:00'' 30 None None []))))) =
     [''e1''] \<and>
   map id_e (list_calendar_events iso_parse (Some ''not-a-date'')
     (snd (create_calendar_event iso_parse ''e2'' ''review'' ''2024-01-02T09:00:00'' 30 None None
       (snd (create_calendar_event iso_parse ''e1'' ''standup'' ''2024-01-01T09:00:00'' 30 None None []))))) =
     [''e1'', ''e2'']"
proof -
  let ?evs = "snd (create_calendar_event iso_parse ''e2'' ''review'' ''2024-01-02T09:00:00'' 30 None None
       (snd (create_calendar_event iso_parse ''e1'' ''standup'' ''2024-01-01T09:00:00'' 30 None None [])))"
  have evs: "?evs = [\<lparr>id_e = ''e1'', title = ''standup'', start_time = 63839696400000000,
        end_time = 63839698200000000, description_e = None, location = None\<rparr>,
      \<lparr>id_e = ''e2'', title = ''review'', start_time = 63839782800000000,
        end_time = 63839784600000000, description_e = None, location = None\<rparr>]"
    by (simp add: iso_0900 iso_day2_0900 cal_eval)
  show ?thesis
    using list_calendar_events_filter[of iso_parse ?evs "''2024-01-01''" 63839664000000000]
      list_calendar_events_filter[of iso_parse ?evs "''not-a-date''" 0]
      iso_day1 iso_not_a_date
    by (simp add: evs date_of_def)
qed










end
